theory Spec2Isabelle
  imports Main
begin

section \<open>Python values used by the program\<close>

text \<open>
  A Python \<open>str\<close> is a sequence of Unicode code points; it is modelled as the list of
  their numbers, so that \<open>strip\<close> sees every white-space character Python knows.
  \<open>S\<close> turns an ASCII literal of the source into such a list.
\<close>

type_synonym pystr = "nat list"

definition S :: "string \<Rightarrow> pystr" where
  "S s = map of_char s"

text \<open>\<open>str(n)\<close> of a non-negative integer, as an f-string prints it.\<close>

fun str_nat :: "nat \<Rightarrow> pystr" where
  "str_nat n = (if n < 10 then [48 + n] else str_nat (n div 10) @ [48 + n mod 10])"

text \<open>
  An exception is its class, as far as the handlers of the program tell classes apart
  (an instance of a subclass counts as the class a handler names), and the text
  \<open>str(e)\<close> that the handlers print. Every class below derives from \<open>Exception\<close>.
\<close>

datatype exc_class = KeyError | ImportError | ValueError | IndexError | OtherError

datatype exn = Exn (exn_class: exc_class) (exn_str: pystr)

text \<open>Reading a list at a non-negative index: Python raises out of range.\<close>

definition py_index :: "'a list \<Rightarrow> nat \<Rightarrow> exn + 'a" where
  "py_index xs i =
     (if i < length xs then Inr (xs ! i) else Inl (Exn IndexError (S ''list index out of range'')))"

text \<open>Records sent to the \<open>logging\<close> module: the level and the message.\<close>

datatype level = INFO | WARNING | ERROR

type_synonym log_record = "level \<times> pystr"

section \<open>utils/api_key_manager.py\<close>

subsection \<open>The sources of keys\<close>

text \<open>
  \<open>st.secrets\<close>: what \<open>len\<close> gives (or raises, as it does without a secrets file) and
  what reading an item gives; a missing key raises \<open>KeyError\<close>.
\<close>

record st_secrets =
  secrets_len :: "exn + nat"
  secrets_getitem :: "pystr \<Rightarrow> exn + pystr"

text \<open>
  What \<open>import streamlit\<close> gives: it raises, or the module has no attribute
  \<open>secrets\<close>, or it has one.
\<close>

datatype streamlit = ImportRaises exn | NoSecretsAttr | HasSecrets st_secrets

text \<open>The process environment, read by \<open>os.getenv\<close>.\<close>

record key_sources =
  streamlit_module :: streamlit
  environ :: "pystr \<Rightarrow> pystr option"

subsection \<open>The manager\<close>

record APIKeyManager =
  api_keys :: "pystr list"
  current_index :: nat

definition key_name :: "nat \<Rightarrow> pystr" where
  "key_name i = S ''GROQ_API_KEY_'' @ str_nat i"

definition placeholder :: pystr where
  "placeholder = S ''your_first_api_key_here''"

text \<open>
  Lines 27-35: the loop over \<open>range(1, 10)\<close> on the secrets. It carries the keys appended
  so far and the log; an exception other than \<open>KeyError\<close> leaves the loop with the keys
  appended so far still in \<open>self.api_keys\<close>.
\<close>

fun secrets_loop ::
  "(pystr \<Rightarrow> exn + pystr) \<Rightarrow> nat list \<Rightarrow> pystr list \<times> log_record list
     \<Rightarrow> (pystr list \<times> log_record list) \<times> exn option" where
  "secrets_loop getitem [] acc = (acc, None)"
| "secrets_loop getitem (i # rest) (keys, lg) =
     (case getitem (key_name i) of
        Inl e \<Rightarrow>
          (if exn_class e = KeyError then secrets_loop getitem rest (keys, lg)
           else ((keys, lg), Some e))
      | Inr key \<Rightarrow>
          (if key \<noteq> [] \<and> key \<noteq> placeholder
           then secrets_loop getitem rest
                  (keys @ [key],
                   lg @ [(INFO, [9989] @ S '' Loaded '' @ key_name i @ S '' from Streamlit secrets'')])
           else secrets_loop getitem rest (keys, lg)))"

text \<open>The two handlers of lines 42-45.\<close>

definition secrets_handler :: "exn \<Rightarrow> log_record" where
  "secrets_handler e =
     (if exn_class e = ImportError
      then (INFO, S ''Streamlit not imported, using environment variables'')
      else (WARNING, S ''Error accessing Streamlit secrets: '' @ exn_str e))"

text \<open>Lines 19-45: the keys and the log after the attempt on the secrets.\<close>

definition load_from_secrets :: "streamlit \<Rightarrow> pystr list \<times> log_record list" where
  "load_from_secrets st =
     (case st of
        ImportRaises e \<Rightarrow> ([], [secrets_handler e])
      | NoSecretsAttr \<Rightarrow>
          ([], [(INFO, S ''Streamlit secrets not available, using environment variables'')])
      | HasSecrets sec \<Rightarrow>
          (case secrets_len sec of
             Inl e \<Rightarrow> ([], [secrets_handler e])
           | Inr n \<Rightarrow>
               (if n > 0 then
                  (case secrets_loop (secrets_getitem sec) [1..<10]
                          ([], [(INFO, [128269] @ S '' Checking Streamlit secrets for API keys...'')]) of
                     ((keys, lg), Some e) \<Rightarrow> (keys, lg @ [secrets_handler e])
                   | ((keys, lg), None) \<Rightarrow>
                       (if keys = []
                        then (keys, lg @ [(WARNING, [9888, 65039] @ S '' No API keys found in Streamlit secrets'')])
                        else (keys, lg)))
                else ([], [(INFO, S ''Streamlit secrets not available, using environment variables'')]))))"

text \<open>Lines 50-54: the loop over \<open>range(1, 10)\<close> on the environment.\<close>

fun environ_loop ::
  "(pystr \<Rightarrow> pystr option) \<Rightarrow> nat list \<Rightarrow> pystr list \<times> log_record list
     \<Rightarrow> pystr list \<times> log_record list" where
  "environ_loop getenv [] acc = acc"
| "environ_loop getenv (i # rest) (keys, lg) =
     (case getenv (key_name i) of
        None \<Rightarrow> environ_loop getenv rest (keys, lg)
      | Some key \<Rightarrow>
          (if key \<noteq> []
           then environ_loop getenv rest
                  (keys @ [key],
                   lg @ [(INFO, [9989] @ S '' Loaded API key #'' @ str_nat i @ S '' from environment'')])
           else environ_loop getenv rest (keys, lg)))"

text \<open>Lines 47-54.\<close>

definition load_from_environ ::
  "(pystr \<Rightarrow> pystr option) \<Rightarrow> pystr list \<times> log_record list \<Rightarrow> pystr list \<times> log_record list" where
  "load_from_environ getenv acc =
     (case acc of (keys, lg) \<Rightarrow>
        if keys = []
        then environ_loop getenv [1..<10]
               (keys, lg @ [(INFO, [128269] @ S '' Checking environment variables for API keys...'')])
        else (keys, lg))"

text \<open>Lines 56-61.\<close>

definition load_single_key ::
  "(pystr \<Rightarrow> pystr option) \<Rightarrow> pystr list \<times> log_record list \<Rightarrow> pystr list \<times> log_record list" where
  "load_single_key getenv acc =
     (case acc of (keys, lg) \<Rightarrow>
        if keys = [] then
          (case getenv (S ''GROQ_API_KEY'') of
             None \<Rightarrow> (keys, lg)
           | Some single_key \<Rightarrow>
               (if single_key \<noteq> []
                then (keys @ [single_key],
                      lg @ [(INFO, [9989] @ S '' Loaded single API key from GROQ_API_KEY'')])
                else (keys, lg)))
        else (keys, lg))"

text \<open>Lines 65-70.\<close>

definition final_report :: "pystr list \<Rightarrow> log_record list" where
  "final_report keys =
     (if keys \<noteq> []
      then [(INFO, [127881] @ S '' Successfully loaded '' @ str_nat (length keys)
                     @ S '' API key(s) for rotation'')]
      else [(ERROR, [10060] @ S '' NO API KEYS FOUND!''),
            (ERROR, S ''For Streamlit Cloud: Add GROQ_API_KEY_1, GROQ_API_KEY_2, GROQ_API_KEY_3 in Settings ''
                      @ [8594] @ S '' Secrets''),
            (ERROR, S ''For local: Add them to .env file'')])"

text \<open>\<open>APIKeyManager.__init__\<close>: the new manager and what it logged.\<close>

definition init :: "key_sources \<Rightarrow> APIKeyManager \<times> log_record list" where
  "init src =
     (case load_single_key (environ src)
             (load_from_environ (environ src) (load_from_secrets (streamlit_module src))) of
        (keys, lg) \<Rightarrow> (\<lparr>api_keys = keys, current_index = 0\<rparr>, lg @ final_report keys))"

text \<open>\<open>get_current_key\<close>: the value returned, or the exception raised.\<close>

definition get_current_key :: "APIKeyManager \<Rightarrow> exn + pystr" where
  "get_current_key m =
     (if api_keys m = [] then Inl (Exn ValueError (S ''No API keys configured!''))
      else py_index (api_keys m) (current_index m))"

text \<open>
  \<open>rotate_to_next\<close>: the value returned (\<open>None\<close> is Python's \<open>None\<close>) or the exception
  raised, the manager afterwards, and what was logged.
\<close>

definition rotate_to_next ::
  "APIKeyManager \<Rightarrow> (exn + pystr option) \<times> APIKeyManager \<times> log_record list" where
  "rotate_to_next m =
     (if length (api_keys m) \<le> 1 then
        (Inr (case api_keys m of [] \<Rightarrow> None | k # _ \<Rightarrow> Some k), m,
         [(WARNING, [9888, 65039] @ S '' Only 1 API key available, cannot rotate'')])
      else
        (let old_index = current_index m;
             m' = m\<lparr>current_index := (current_index m + 1) mod length (api_keys m)\<rparr>
         in (map_sum id Some (py_index (api_keys m') (current_index m')), m',
             [(INFO, [128260] @ S '' Rotating API key: Key #'' @ str_nat (old_index + 1) @ S '' ''
                       @ [8594] @ S '' Key #'' @ str_nat (current_index m' + 1))])))"

definition get_key_number :: "APIKeyManager \<Rightarrow> nat" where
  "get_key_number m = current_index m + 1"

definition get_total_keys :: "APIKeyManager \<Rightarrow> nat" where
  "get_total_keys m = length (api_keys m)"

text \<open>The manager after \<open>k\<close> calls of \<open>rotate_to_next\<close>.\<close>

fun rotations :: "nat \<Rightarrow> APIKeyManager \<Rightarrow> APIKeyManager" where
  "rotations 0 m = m"
| "rotations (Suc k) m = rotations k (fst (snd (rotate_to_next m)))"

section \<open>app.py: text extraction\<close>

subsection \<open>String operations\<close>

text \<open>
  The characters that \<open>str.strip()\<close> removes: those for which \<open>str.isspace\<close> holds.
\<close>

definition is_space :: "nat \<Rightarrow> bool" where
  "is_space c \<longleftrightarrow>
     (9 \<le> c \<and> c \<le> 13) \<or> (28 \<le> c \<and> c \<le> 32) \<or> c = 133 \<or> c = 160 \<or> c = 5760 \<or>
     (8192 \<le> c \<and> c \<le> 8202) \<or> c = 8232 \<or> c = 8233 \<or> c = 8239 \<or> c = 8287 \<or> c = 12288"

definition strip :: "pystr \<Rightarrow> pystr" where
  "strip s = rev (dropWhile is_space (rev (dropWhile is_space s)))"

fun startswith :: "pystr \<Rightarrow> pystr \<Rightarrow> bool" where
  "startswith s [] = True"
| "startswith [] (p # ps) = False"
| "startswith (c # cs) (p # ps) = (c = p \<and> startswith cs ps)"

definition endswith :: "pystr \<Rightarrow> pystr \<Rightarrow> bool" where
  "endswith s suffix = startswith (rev s) (rev suffix)"

text \<open>\<open>sub in s\<close> on strings.\<close>

fun contains :: "pystr \<Rightarrow> pystr \<Rightarrow> bool" where
  "contains [] sub = (sub = [])"
| "contains (c # cs) sub = (startswith (c # cs) sub \<or> contains cs sub)"

text \<open>\<open>sep.join(parts)\<close>.\<close>

fun join :: "pystr \<Rightarrow> pystr list \<Rightarrow> pystr" where
  "join sep [] = []"
| "join sep [x] = x"
| "join sep (x # y # rest) = x @ sep @ join sep (y # rest)"

subsection \<open>The uploaded file\<close>

text \<open>
  An uploaded file, as \<open>extract_text_from_file\<close> sees it: what reading its attributes
  gives, and what each library gives on its content. \<open>Inl\<close> is the exception raised.
  \<^item> \<open>file_type\<close>, \<open>file_name\<close>: the attributes \<open>type\<close> and \<open>name\<close>;
  \<^item> \<open>pypdf2_pages\<close>: \<open>PyPDF2.PdfReader(uploaded_file).pages\<close>, each page with what its
    \<open>extract_text()\<close> gives (a string or \<open>None\<close>); the reader raises also when the
    library is not installed;
  \<^item> \<open>pdfplumber_pages\<close>: the same for \<open>seek(0)\<close> and \<open>pdfplumber.open(uploaded_file).pages\<close>;
  \<^item> \<open>docx_paragraphs\<close>: the texts of \<open>Document(uploaded_file).paragraphs\<close>;
  \<^item> \<open>decoded\<close>: \<open>uploaded_file.getvalue().decode("utf-8")\<close>.
\<close>

record uploaded_file =
  file_type :: "exn + pystr"
  file_name :: "exn + pystr"
  pypdf2_pages :: "exn + (exn + pystr option) list"
  pdfplumber_pages :: "exn + (exn + pystr option) list"
  docx_paragraphs :: "exn + pystr list"
  decoded :: "exn + pystr"

text \<open>The triple \<open>(text, success, error)\<close> that the function returns.\<close>

type_synonym extraction = "pystr \<times> bool \<times> pystr option"

subsection \<open>extract_text_from_file\<close>

text \<open>
  Lines 70-71 and 82-83: \<open>for page in pages: text += page.extract_text() or ""\<close>.
  A page that raises ends the loop with its exception.
\<close>

fun read_pages :: "(exn + pystr option) list \<Rightarrow> pystr \<Rightarrow> exn + pystr" where
  "read_pages [] text = Inr text"
| "read_pages (page # rest) text =
     (case page of
        Inl e \<Rightarrow> Inl e
      | Inr r \<Rightarrow> read_pages rest (text @ (case r of None \<Rightarrow> [] | Some t \<Rightarrow> t)))"

text \<open>
  The body of one \<open>try\<close> of the PDF branch (lines 68-73 and 79-85): \<open>Inr (Some text)\<close>
  when it returns the text, \<open>Inr None\<close> when it falls through, \<open>Inl\<close> when it raises.
\<close>

definition pdf_attempt :: "exn + (exn + pystr option) list \<Rightarrow> exn + pystr option" where
  "pdf_attempt reader =
     (case reader of
        Inl e \<Rightarrow> Inl e
      | Inr pages \<Rightarrow>
          (case read_pages pages [] of
             Inl e \<Rightarrow> Inl e
           | Inr text \<Rightarrow> if strip text \<noteq> [] then Inr (Some text) else Inr None))"

text \<open>\<open>except: pass\<close> around such a body.\<close>

definition except_pass :: "exn + 'a option \<Rightarrow> 'a option" where
  "except_pass r = (case r of Inl e \<Rightarrow> None | Inr v \<Rightarrow> v)"

text \<open>Lines 66-89.\<close>

definition extract_pdf :: "uploaded_file \<Rightarrow> exn + extraction" where
  "extract_pdf f =
     (case except_pass (pdf_attempt (pypdf2_pages f)) of
        Some text \<Rightarrow> Inr (text, True, None)
      | None \<Rightarrow>
          (case except_pass (pdf_attempt (pdfplumber_pages f)) of
             Some text \<Rightarrow> Inr (text, True, None)
           | None \<Rightarrow> Inr ([], False, Some (S ''Could not extract text from PDF''))))"

text \<open>Lines 92-99.\<close>

definition extract_docx :: "uploaded_file \<Rightarrow> exn + extraction" where
  "extract_docx f =
     (case docx_paragraphs f of
        Inl e \<Rightarrow> Inr ([], False, Some (S ''Error reading DOCX: '' @ exn_str e))
      | Inr paragraphs \<Rightarrow>
          (let text = join [10] paragraphs
           in if strip text \<noteq> [] then Inr (text, True, None)
              else Inr ([], False, Some (S ''DOCX file is empty''))))"

text \<open>Lines 102-108.\<close>

definition extract_txt :: "uploaded_file \<Rightarrow> exn + extraction" where
  "extract_txt f =
     (case decoded f of
        Inl e \<Rightarrow> Inr ([], False, Some (S ''Error reading text file: '' @ exn_str e))
      | Inr text \<Rightarrow>
          (if strip text \<noteq> [] then Inr (text, True, None)
           else Inr ([], False, Some (S ''Text file is empty''))))"

text \<open>
  Lines 65-108, the statements under the outermost \<open>try\<close>. The name is read only when
  the type does not contain \<open>wordprocessingml\<close>.
\<close>

definition extract_body :: "uploaded_file \<Rightarrow> exn + extraction" where
  "extract_body f =
     (case file_type f of
        Inl e \<Rightarrow> Inl e
      | Inr ty \<Rightarrow>
          (if ty = S ''application/pdf'' then extract_pdf f
           else if contains ty (S ''wordprocessingml'') then extract_docx f
           else (case file_name f of
                   Inl e \<Rightarrow> Inl e
                 | Inr nm \<Rightarrow> if endswith nm (S ''.docx'') then extract_docx f else extract_txt f)))"

text \<open>Lines 62-111: the body under the handler \<open>except Exception as e\<close>.\<close>

definition extract_text_from_file :: "uploaded_file \<Rightarrow> exn + extraction" where
  "extract_text_from_file f =
     (case extract_body f of
        Inl e \<Rightarrow> Inr ([], False, Some (S ''Unexpected error: '' @ exn_str e))
      | Inr r \<Rightarrow> Inr r)"

section \<open>app.py: the batch loop of "Analyze All Resumes"\<close>

subsection \<open>The analysis and its result\<close>

text \<open>
  Modelled from the spec: the shape of what \<open>run_complete_analysis\<close> returns; the
  module \<open>crew_setup\<close> is not among the sources. The result is \<open>None\<close> or a dictionary
  in which the loop looks for the keys \<open>status\<close>, \<open>parsed_resume\<close>, \<open>analysis\<close> and
  \<open>error\<close>. A field is \<open>None\<close> when the dictionary lacks the key; a key that is there has
  a value of the type the specification gives it (a ParsedCandidate, an InsightResult with
  an integer score, strings). \<open>has_other_keys\<close> tells whether the dictionary holds any
  further key, which makes it true in a condition.
\<close>

record parsed =
  p_name :: "pystr option"
  p_email :: "pystr option"
  p_phone :: "pystr option"
  p_experience_years :: "int option"
  p_skills :: "pystr list option"

record analysis =
  a_confidence_score :: "int option"
  a_key_strengths :: "pystr list option"
  a_gaps :: "pystr list option"
  a_recommendation :: "pystr option"

record analysis_result =
  r_status :: "pystr option"
  r_parsed_resume :: "parsed option"
  r_analysis :: "analysis option"
  r_error :: "pystr option"
  has_other_keys :: bool

text \<open>The dictionary \<open>job_requirements\<close> of lines 233-240.\<close>

record job_requirements =
  job_title :: pystr
  required_skills :: pystr
  required_experience_years :: pystr
  min_experience :: int
  max_experience :: int
  nice_to_have :: pystr

text \<open>The values of the sidebar that the loop reads.\<close>

record sidebar =
  sb_job_title :: pystr
  sb_required_skills :: pystr
  sb_required_experience :: pystr
  sb_min_experience :: int
  sb_max_experience :: int
  sb_nice_to_have :: pystr
  shortlist_threshold :: int

text \<open>
  What the loop calls: the analysis, which answers the call made for the document at
  position \<open>idx\<close> with an exception or a result, and the clock, which gives
  \<open>datetime.now().strftime("%Y-%m-%d %H:%M")\<close> at that position.
\<close>

record collaborators =
  run_complete_analysis :: "nat \<Rightarrow> pystr \<Rightarrow> job_requirements \<Rightarrow> exn + analysis_result option"
  now :: "nat \<Rightarrow> pystr"

text \<open>The dictionary appended to \<open>st.session_state.all_results\<close> (lines 265-278).\<close>

record candidate =
  name :: pystr
  email :: pystr
  phone :: pystr
  experience_years :: int
  skills :: "pystr list"
  confidence_score :: int
  shortlisted :: bool
  key_strengths :: "pystr list"
  gaps :: "pystr list"
  recommendation :: pystr
  date :: pystr
  resume_file :: pystr

text \<open>
  The variables of the loop and the two entries of the session state that it writes.
\<close>

record batch_state =
  successful :: nat
  failed :: nat
  failed_files :: "pystr list"
  all_results :: "candidate list"
  current_analysis :: "(parsed \<times> analysis \<times> pystr) option"

subsection \<open>The loop\<close>

text \<open>\<open>d.get(key, default)\<close>.\<close>

definition get_default :: "'a option \<Rightarrow> 'a \<Rightarrow> 'a" where
  "get_default v d = (case v of None \<Rightarrow> d | Some x \<Rightarrow> x)"

text \<open>An optional string inside an f-string.\<close>

definition str_opt :: "pystr option \<Rightarrow> pystr" where
  "str_opt v = (case v of None \<Rightarrow> S ''None'' | Some x \<Rightarrow> x)"

text \<open>A dictionary in a condition: true when it has a key.\<close>

definition truthy :: "analysis_result \<Rightarrow> bool" where
  "truthy r \<longleftrightarrow>
     r_status r \<noteq> None \<or> r_parsed_resume r \<noteq> None \<or> r_analysis r \<noteq> None \<or>
     r_error r \<noteq> None \<or> has_other_keys r"

text \<open>
  Line 251: the dictionary, when \<open>result and result.get("status") == "success"\<close> holds.
\<close>

definition success_result :: "analysis_result option \<Rightarrow> analysis_result option" where
  "success_result result =
     (case result of
        None \<Rightarrow> None
      | Some r \<Rightarrow> if truthy r \<and> r_status r = Some (S ''success'') then Some r else None)"

text \<open>Line 291.\<close>

definition error_msg :: "analysis_result option \<Rightarrow> pystr" where
  "error_msg result =
     (case result of
        None \<Rightarrow> S ''No result returned''
      | Some r \<Rightarrow>
          if truthy r then get_default (r_error r) (S ''Unknown error'')
          else S ''No result returned'')"

definition make_job_requirements :: "sidebar \<Rightarrow> job_requirements" where
  "make_job_requirements sb =
     \<lparr>job_title = sb_job_title sb,
      required_skills = sb_required_skills sb,
      required_experience_years = sb_required_experience sb,
      min_experience = sb_min_experience sb,
      max_experience = sb_max_experience sb,
      nice_to_have = sb_nice_to_have sb\<rparr>"

text \<open>Lines 265-278.\<close>

definition make_candidate :: "sidebar \<Rightarrow> pystr \<Rightarrow> pystr \<Rightarrow> parsed \<Rightarrow> analysis \<Rightarrow> candidate" where
  "make_candidate sb stamp fname p a =
     \<lparr>name = get_default (p_name p) (S ''Unknown''),
      email = get_default (p_email p) [],
      phone = get_default (p_phone p) (S ''N/A''),
      experience_years = get_default (p_experience_years p) 0,
      skills = get_default (p_skills p) [],
      confidence_score = get_default (a_confidence_score a) 0,
      shortlisted = (get_default (a_confidence_score a) 0 \<ge> shortlist_threshold sb),
      key_strengths = get_default (a_key_strengths a) [],
      gaps = get_default (a_gaps a) [],
      recommendation = get_default (a_recommendation a) (S ''N/A''),
      date = stamp,
      resume_file = fname\<rparr>"

text \<open>Lines 224-225, 246-247 and 294-295: one more failure, with its line.\<close>

definition record_failure :: "pystr \<Rightarrow> batch_state \<Rightarrow> batch_state" where
  "record_failure line st = st\<lparr>failed := failed st + 1, failed_files := failed_files st @ [line]\<rparr>"

text \<open>
  Lines 216-298, one pass of the loop for the document at position \<open>idx\<close>: the state
  afterwards, or the exception that leaves the loop. The calls that only display or log
  are left out.
\<close>

definition loop_body ::
  "collaborators \<Rightarrow> sidebar \<Rightarrow> nat \<Rightarrow> uploaded_file \<Rightarrow> batch_state \<Rightarrow> exn + batch_state" where
  "loop_body env sb idx uploaded_file st =
     (case file_name uploaded_file of
        Inl e \<Rightarrow> Inl e
      | Inr fname \<Rightarrow>
          (case extract_text_from_file uploaded_file of
             Inl e \<Rightarrow> Inl e
           | Inr (resume_text, success, error) \<Rightarrow>
               if \<not> success then Inr (record_failure (fname @ S '' - '' @ str_opt error) st)
               else
                 (case run_complete_analysis env idx resume_text (make_job_requirements sb) of
                    Inl e \<Rightarrow> Inr (record_failure (fname @ S '' - Analysis error: '' @ exn_str e) st)
                  | Inr result \<Rightarrow>
                      (case success_result result of
                         Some r \<Rightarrow>
                           (case r_parsed_resume r of
                              None \<Rightarrow> Inl (Exn KeyError ([39] @ S ''parsed_resume'' @ [39]))
                            | Some p \<Rightarrow>
                                (case r_analysis r of
                                   None \<Rightarrow> Inl (Exn KeyError ([39] @ S ''analysis'' @ [39]))
                                 | Some a \<Rightarrow>
                                     Inr (st\<lparr>all_results :=
                                                all_results st @ [make_candidate sb (now env idx) fname p a],
                                             current_analysis := Some (p, a, fname),
                                             successful := successful st + 1\<rparr>)))
                       | None \<Rightarrow> Inr (record_failure (fname @ S '' - '' @ error_msg result) st)))))"

text \<open>Lines 215-298: \<open>for idx, uploaded_file in enumerate(uploaded_files)\<close>.\<close>

fun batch_loop ::
  "collaborators \<Rightarrow> sidebar \<Rightarrow> nat \<Rightarrow> uploaded_file list \<Rightarrow> batch_state \<Rightarrow> exn + batch_state" where
  "batch_loop env sb idx [] st = Inr st"
| "batch_loop env sb idx (uploaded_file # rest) st =
     (case loop_body env sb idx uploaded_file st of
        Inl e \<Rightarrow> Inl e
      | Inr st' \<Rightarrow> batch_loop env sb (idx + 1) rest st')"

text \<open>Lines 211-298: the counters start at zero, the session state is as it was.\<close>

definition analyze_all ::
  "collaborators \<Rightarrow> sidebar \<Rightarrow> uploaded_file list \<Rightarrow> batch_state \<Rightarrow> exn + batch_state" where
  "analyze_all env sb uploaded_files session =
     batch_loop env sb 0 uploaded_files (session\<lparr>successful := 0, failed := 0, failed_files := []\<rparr>)"

section \<open>Notions used in the statements\<close>

subsection \<open>Reading a document as a whole\<close>

text \<open>The text a page contributes, and whether reading it raised nothing.\<close>

definition page_text :: "exn + pystr option \<Rightarrow> pystr" where
  "page_text page = (case page of Inr (Some t) \<Rightarrow> t | _ \<Rightarrow> [])"

definition page_read :: "exn + pystr option \<Rightarrow> bool" where
  "page_read page = (case page of Inr _ \<Rightarrow> True | Inl _ \<Rightarrow> False)"

text \<open>
  A library reads a document as a whole when it opens it, reads every page without an
  exception, and the pages together are not blank; the text is then that of all pages.
\<close>

definition whole_document :: "exn + (exn + pystr option) list \<Rightarrow> pystr option" where
  "whole_document reader =
     (case reader of
        Inl e \<Rightarrow> None
      | Inr pages \<Rightarrow>
          if list_all page_read pages \<and> strip (concat (map page_text pages)) \<noteq> []
          then Some (concat (map page_text pages)) else None)"

subsection \<open>Examples\<close>

text \<open>Two keys in the environment, no secrets.\<close>

definition two_keys :: key_sources where
  "two_keys =
     \<lparr>streamlit_module = NoSecretsAttr,
      environ = (\<lambda>k. if k = key_name 1 then Some (S ''k1'')
                     else if k = key_name 2 then Some (S ''k2'') else None)\<rparr>"

text \<open>No key anywhere.\<close>

definition no_keys :: key_sources where
  "no_keys = \<lparr>streamlit_module = NoSecretsAttr, environ = (\<lambda>k. None)\<rparr>"

text \<open>The environment of a copied template: the first key still holds the placeholder.\<close>

definition template_environ :: key_sources where
  "template_environ =
     \<lparr>streamlit_module = NoSecretsAttr,
      environ = (\<lambda>k. if k = key_name 1 then Some placeholder else None)\<rparr>"

text \<open>The same placeholder in the secrets.\<close>

definition template_secrets :: key_sources where
  "template_secrets =
     \<lparr>streamlit_module =
        HasSecrets \<lparr>secrets_len = Inr 1,
                    secrets_getitem =
                      (\<lambda>k. if k = key_name 1 then Inr placeholder else Inl (Exn KeyError k))\<rparr>,
      environ = (\<lambda>k. None)\<rparr>"

text \<open>A PDF of two pages whose second page raises in both libraries.\<close>

definition two_page_pdf :: uploaded_file where
  "two_page_pdf =
     \<lparr>file_type = Inr (S ''application/pdf''),
      file_name = Inr (S ''cv.pdf''),
      pypdf2_pages = Inr [Inr (Some (S ''Jane Doe'')), Inl (Exn OtherError (S ''bad page''))],
      pdfplumber_pages = Inr [Inr (Some (S ''Jane Doe'')), Inl (Exn OtherError (S ''bad page''))],
      docx_paragraphs = Inl (Exn OtherError (S ''not a docx'')),
      decoded = Inl (Exn OtherError (S ''not utf-8''))\<rparr>"

text \<open>The same PDF where only PyPDF2 fails on the second page.\<close>

definition recovered_pdf :: uploaded_file where
  "recovered_pdf =
     two_page_pdf\<lparr>pdfplumber_pages := Inr [Inr (Some (S ''Jane '')), Inr (Some (S ''Doe''))]\<rparr>"

text \<open>A text file, and an object whose attribute \<open>type\<close> cannot be read.\<close>

definition text_file :: uploaded_file where
  "text_file =
     \<lparr>file_type = Inr (S ''text/plain''),
      file_name = Inr (S ''cv.txt''),
      pypdf2_pages = Inl (Exn OtherError (S ''not a pdf'')),
      pdfplumber_pages = Inl (Exn OtherError (S ''not a pdf'')),
      docx_paragraphs = Inl (Exn OtherError (S ''not a docx'')),
      decoded = Inr (S '' Jane Doe '')\<rparr>"

definition no_type :: uploaded_file where
  "no_type = text_file\<lparr>file_type := Inl (Exn OtherError (S ''no attribute type''))\<rparr>"

subsection \<open>What becomes of one document of a batch\<close>

text \<open>The name of the document can be read.\<close>

definition readable_name :: "uploaded_file \<Rightarrow> bool" where
  "readable_name f = (case file_name f of Inl e \<Rightarrow> False | Inr n \<Rightarrow> True)"

text \<open>
  Modelled from the spec: the contract of the analysis (section 4.3, "on success,
  (ParsedCandidate, InsightResult)"); \<open>crew_setup\<close> is not among the sources. A result
  that passes the test of line 251 carries the keys \<open>parsed_resume\<close> and \<open>analysis\<close>.
\<close>

definition complete_result :: "analysis_result option \<Rightarrow> bool" where
  "complete_result result =
     (case success_result result of
        None \<Rightarrow> True
      | Some r \<Rightarrow> r_parsed_resume r \<noteq> None \<and> r_analysis r \<noteq> None)"

text \<open>
  A document at its position is well formed when its name can be read and the analysis,
  if the loop calls it for this document, answers with an exception or with a result that
  honours the contract.
\<close>

definition well_formed_item :: "collaborators \<Rightarrow> sidebar \<Rightarrow> nat \<times> uploaded_file \<Rightarrow> bool" where
  "well_formed_item env sb = (\<lambda>(idx, f).
     readable_name f \<and>
     (case extract_text_from_file f of
        Inl e \<Rightarrow> True
      | Inr (text, success, error) \<Rightarrow>
          if success then
            (case run_complete_analysis env idx text (make_job_requirements sb) of
               Inl e \<Rightarrow> True
             | Inr result \<Rightarrow> complete_result result)
          else True))"

text \<open>
  The reason for which a document fails, if it does: the error of the extraction, the
  exception of the analysis, or the error of a result that is not a success.
\<close>

definition failure_reason :: "collaborators \<Rightarrow> sidebar \<Rightarrow> nat \<times> uploaded_file \<Rightarrow> pystr option" where
  "failure_reason env sb = (\<lambda>(idx, f).
     case extract_text_from_file f of
       Inl e \<Rightarrow> None
     | Inr (text, success, error) \<Rightarrow>
         if \<not> success then Some (str_opt error)
         else
           (case run_complete_analysis env idx text (make_job_requirements sb) of
              Inl e \<Rightarrow> Some (S ''Analysis error: '' @ exn_str e)
            | Inr result \<Rightarrow>
                (case success_result result of
                   None \<Rightarrow> Some (error_msg result)
                 | Some r \<Rightarrow> None)))"

text \<open>The entry of the failure list for a document that fails: name, dash, reason.\<close>

definition failure_line :: "collaborators \<Rightarrow> sidebar \<Rightarrow> nat \<times> uploaded_file \<Rightarrow> pystr option" where
  "failure_line env sb x =
     (case (file_name (snd x), failure_reason env sb x) of
        (Inr n, Some reason) \<Rightarrow> Some (n @ S '' - '' @ reason)
      | _ \<Rightarrow> None)"

text \<open>The record of a document whose extraction and analysis both succeed.\<close>

definition new_candidate :: "collaborators \<Rightarrow> sidebar \<Rightarrow> nat \<times> uploaded_file \<Rightarrow> candidate option" where
  "new_candidate env sb = (\<lambda>(idx, f).
     case (file_name f, extract_text_from_file f) of
       (Inr n, Inr (text, success, error)) \<Rightarrow>
         if success then
           (case run_complete_analysis env idx text (make_job_requirements sb) of
              Inl e \<Rightarrow> None
            | Inr result \<Rightarrow>
                (case success_result result of
                   None \<Rightarrow> None
                 | Some r \<Rightarrow>
                     (case (r_parsed_resume r, r_analysis r) of
                        (Some p, Some a) \<Rightarrow> Some (make_candidate sb (now env idx) n p a)
                      | _ \<Rightarrow> None)))
         else None
     | _ \<Rightarrow> None)"

text \<open>
  Three text documents, the second one blank; an analysis that answers every call with a
  success and the score 80; a sidebar with the threshold 70; a fresh session.
\<close>

definition doc1 :: uploaded_file where
  "doc1 = text_file\<lparr>file_name := Inr (S ''doc1.txt'')\<rparr>"

definition doc2 :: uploaded_file where
  "doc2 = text_file\<lparr>file_name := Inr (S ''doc2.txt''), decoded := Inr (S ''  '')\<rparr>"

definition doc3 :: uploaded_file where
  "doc3 = text_file\<lparr>file_name := Inr (S ''doc3.txt'')\<rparr>"

definition jane :: parsed where
  "jane = \<lparr>p_name = Some (S ''Jane Doe''), p_email = None, p_phone = None,
           p_experience_years = Some 4, p_skills = Some [S ''Python'']\<rparr>"

definition score_80 :: analysis where
  "score_80 = \<lparr>a_confidence_score = Some 80, a_key_strengths = None, a_gaps = None,
               a_recommendation = None\<rparr>"

definition good_result :: analysis_result where
  "good_result = \<lparr>r_status = Some (S ''success''), r_parsed_resume = Some jane,
                  r_analysis = Some score_80, r_error = None, has_other_keys = False\<rparr>"

definition always_success :: collaborators where
  "always_success = \<lparr>run_complete_analysis = (\<lambda>idx text job. Inr (Some good_result)),
                     now = (\<lambda>idx. S ''2024-01-01 10:00'')\<rparr>"

definition threshold_70 :: sidebar where
  "threshold_70 = \<lparr>sb_job_title = S ''Senior Python Developer'',
                   sb_required_skills = S ''Python, Django, AWS'',
                   sb_required_experience = S ''0 to 3'',
                   sb_min_experience = 0, sb_max_experience = 3,
                   sb_nice_to_have = S ''Docker, Kubernetes, Redis'',
                   shortlist_threshold = 70\<rparr>"

definition fresh_session :: batch_state where
  "fresh_session = \<lparr>successful = 0, failed = 0, failed_files = [], all_results = [],
                    current_analysis = None\<rparr>"

subsection \<open>The failure list, in the words of the specification\<close>

text \<open>
  The reason given for an analysis result that is not a success: "No result returned"
  for \<open>None\<close> and for the empty dictionary, otherwise the value of \<open>error\<close> or
  "Unknown error"; no reason for a result whose status is "success".
\<close>

definition declined :: "analysis_result option \<Rightarrow> pystr option" where
  "declined result =
     (case result of
        None \<Rightarrow> Some (S ''No result returned'')
      | Some r \<Rightarrow>
          if r_status r = None \<and> r_parsed_resume r = None \<and> r_analysis r = None \<and>
             r_error r = None \<and> \<not> has_other_keys r
          then Some (S ''No result returned'')
          else if r_status r = Some (S ''success'') then None
          else Some (case r_error r of None \<Rightarrow> S ''Unknown error'' | Some e \<Rightarrow> e))"

text \<open>
  The reason for which a document fails, if it does: the error of the extraction, or
  "Analysis error: " and the text of the exception that the analysis raised, or the
  reason of a result that is not a success.
\<close>

definition item_reason :: "collaborators \<Rightarrow> sidebar \<Rightarrow> nat \<times> uploaded_file \<Rightarrow> pystr option" where
  "item_reason env sb = (\<lambda>(idx, f).
     case extract_text_from_file f of
       Inl e \<Rightarrow> None
     | Inr (text, success, error) \<Rightarrow>
         if success then
           (case run_complete_analysis env idx text (make_job_requirements sb) of
              Inl e \<Rightarrow> Some (S ''Analysis error: '' @ exn_str e)
            | Inr result \<Rightarrow> declined result)
         else Some (case error of None \<Rightarrow> S ''None'' | Some e \<Rightarrow> e))"



text \<open>
  Modelled from the spec: the contract of the analysis (section 4.3, "on success,
  (ParsedCandidate, InsightResult)"); \<open>crew_setup\<close> is not among the sources. A result
  with the status "success" carries the keys \<open>parsed_resume\<close> and \<open>analysis\<close>.
\<close>

definition complete_success :: "analysis_result \<Rightarrow> bool" where
  "complete_success r \<longleftrightarrow>
     (r_status r = Some (S ''success'') \<longrightarrow> r_parsed_resume r \<noteq> None \<and> r_analysis r \<noteq> None)"

text \<open>
  The condition on a document at its position: its name can be read and, if the
  document is extracted and the analysis answers with a dictionary, that dictionary
  honours the contract. It asks nothing of a document that fails.
\<close>

definition honours_contract :: "collaborators \<Rightarrow> sidebar \<Rightarrow> nat \<times> uploaded_file \<Rightarrow> bool" where
  "honours_contract env sb = (\<lambda>(idx, f).
     (case file_name f of Inl e \<Rightarrow> False | Inr n \<Rightarrow> True) \<and>
     (case extract_text_from_file f of
        Inl e \<Rightarrow> True
      | Inr (text, success, error) \<Rightarrow>
          if success then
            (case run_complete_analysis env idx text (make_job_requirements sb) of
               Inl e \<Rightarrow> True
             | Inr None \<Rightarrow> True
             | Inr (Some r) \<Rightarrow> complete_success r)
          else True))"




section \<open>Properties of the key manager\<close>

lemma upt_1_10: "[Suc 0..<10] = [1, 2, 3, 4, 5, 6, 7, 8, 9]"
  by (simp add: upt_conv_Cons)

lemmas init_eval =
  init_def load_from_secrets_def load_from_environ_def load_single_key_def
  key_name_def placeholder_def S_def upt_1_10 final_report_def

lemma rotate_keys [simp]: "api_keys (fst (snd (rotate_to_next m))) = api_keys m"
  by (simp add: rotate_to_next_def Let_def)

lemma rotate_index:
  "current_index (fst (snd (rotate_to_next m))) =
     (if length (api_keys m) \<le> 1 then current_index m
      else (current_index m + 1) mod length (api_keys m))"
  by (simp add: rotate_to_next_def Let_def)

lemma rotations_keys [simp]: "api_keys (rotations k m) = api_keys m"
  by (induction k arbitrary: m) simp_all

text \<open>From any valid index, \<open>k\<close> rotations advance the index by \<open>k\<close> around the pool.\<close>

lemma rotations_index:
  "current_index m < length (api_keys m) \<Longrightarrow>
   current_index (rotations k m) = (current_index m + k) mod length (api_keys m)"
proof (induction k arbitrary: m)
  case 0
  then show ?case by simp
next
  case (Suc k)
  let ?m' = "fst (snd (rotate_to_next m))"
  let ?n = "length (api_keys m)"
  show ?case
  proof (cases "?n \<le> 1")
    case True
    with Suc.prems have one: "?n = 1" and z: "current_index m = 0" by auto
    have "current_index ?m' = current_index m" using True by (simp add: rotate_index)
    with Suc.prems have "current_index ?m' < length (api_keys ?m')" by simp
    from Suc.IH[OF this] show ?thesis using one by simp
  next
    case False
    then have idx: "current_index ?m' = (current_index m + 1) mod ?n" by (simp add: rotate_index)
    from False have "0 < ?n" by (cases "api_keys m") auto
    then have "current_index ?m' < length (api_keys ?m')" using idx by (simp del: One_nat_def)
    from Suc.IH[OF this] show ?thesis using idx by (simp add: mod_add_left_eq)
  qed
qed

lemma rotations_index_valid:
  "current_index m < length (api_keys m) \<Longrightarrow>
   current_index (rotations k m) < length (api_keys m)"
proof -
  assume a: "current_index m < length (api_keys m)"
  then have "0 < length (api_keys m)" by (cases "api_keys m") auto
  then show ?thesis using a by (simp add: rotations_index)
qed

lemma init_index [simp]: "current_index (fst (init src)) = 0"
  by (simp add: init_def split: prod.splits)

lemma two_keys_loaded: "api_keys (fst (init two_keys)) = [S ''k1'', S ''k2'']"
  by (simp add: two_keys_def init_eval)

lemma no_keys_loaded: "api_keys (fst (init no_keys)) = []"
  by (simp add: no_keys_def init_eval)

text \<open>
  C3. With a pool of \<open>N \<ge> 1\<close> keys and the index at 0, as \<open>__init__\<close> leaves it, the
  index after \<open>k\<close> calls of \<open>rotate_to_next\<close> is \<open>k mod N\<close>, for every \<open>k\<close>.
\<close>

theorem rotate_k_times:
  "api_keys m \<noteq> [] \<Longrightarrow> current_index m = 0 \<Longrightarrow>
   current_index (rotations k m) = k mod length (api_keys m)"
  using rotations_index [of m k] by simp

theorem rotate_k_times_witness:
  "api_keys \<lparr>api_keys = [S ''a'', S ''b'', S ''c''], current_index = 0\<rparr> \<noteq> [] \<and>
   current_index \<lparr>api_keys = [S ''a'', S ''b'', S ''c''], current_index = 0\<rparr> = 0 \<and>
   current_index (rotations 5 \<lparr>api_keys = [S ''a'', S ''b'', S ''c''], current_index = 0\<rparr>) = 2"
  using rotate_k_times [of "\<lparr>api_keys = [S ''a'', S ''b'', S ''c''], current_index = 0\<rparr>" 5]
  by simp

text \<open>
  C4, as the code has it. With at most one key, \<open>rotate_to_next\<close> leaves the manager as it
  is and logs one record, a warning; with one key it returns that key; with no key it
  returns \<open>None\<close> and raises nothing.
\<close>

theorem rotate_small_pool:
  "length (api_keys m) \<le> 1 \<Longrightarrow>
   fst (snd (rotate_to_next m)) = m \<and>
   (\<forall>k. api_keys m = [k] \<longrightarrow> fst (rotate_to_next m) = Inr (Some k)) \<and>
   (api_keys m = [] \<longrightarrow> fst (rotate_to_next m) = Inr None) \<and>
   map fst (snd (snd (rotate_to_next m))) = [WARNING]"
  by (auto simp: rotate_to_next_def)

theorem rotate_small_pool_witness:
  "fst (rotate_to_next \<lparr>api_keys = [S ''k1''], current_index = 0\<rparr>) = Inr (Some (S ''k1'')) \<and>
   fst (snd (rotate_to_next \<lparr>api_keys = [S ''k1''], current_index = 0\<rparr>))
     = \<lparr>api_keys = [S ''k1''], current_index = 0\<rparr> \<and>
   map fst (snd (snd (rotate_to_next \<lparr>api_keys = [S ''k1''], current_index = 0\<rparr>))) = [WARNING] \<and>
   fst (snd (rotate_to_next \<lparr>api_keys = [], current_index = 0\<rparr>))
     = \<lparr>api_keys = [], current_index = 0\<rparr>"
  using rotate_small_pool [of "\<lparr>api_keys = [S ''k1''], current_index = 0\<rparr>"]
    rotate_small_pool [of "\<lparr>api_keys = [], current_index = 0\<rparr>"]
  by simp

text \<open>
  C4, as the specification states it, fails on the empty pool: the call returns
  \<open>None\<close>; it does not fail.
\<close>

theorem rotate_empty_pool_returns:
  "fst (rotate_to_next \<lparr>api_keys = [], current_index = 0\<rparr>) = Inr None"
  by (simp add: rotate_to_next_def)

text \<open>
  C9. In every state the manager can reach, that is after \<open>__init__\<close> and any number
  of rotations, \<open>get_current_key\<close> raises \<open>ValueError("No API keys configured!")\<close> when
  there is no key, and otherwise returns the key at \<open>current_index\<close>, which is an index
  of the pool.
\<close>

theorem get_current_key_reachable:
  "m = rotations k (fst (init src)) \<Longrightarrow>
   (api_keys m = [] \<longrightarrow> get_current_key m = Inl (Exn ValueError (S ''No API keys configured!''))) \<and>
   (api_keys m \<noteq> [] \<longrightarrow>
      current_index m < length (api_keys m) \<and>
      get_current_key m = Inr (api_keys m ! current_index m))"
proof (intro conjI impI)
  assume "api_keys m = []"
  then show "get_current_key m = Inl (Exn ValueError (S ''No API keys configured!''))"
    by (simp add: get_current_key_def)
next
  assume m: "m = rotations k (fst (init src))" and ne: "api_keys m \<noteq> []"
  then have "current_index (fst (init src)) < length (api_keys (fst (init src)))" by simp
  from rotations_index_valid [OF this, of k] show valid: "current_index m < length (api_keys m)"
    using m by simp
  then show "get_current_key m = Inr (api_keys m ! current_index m)"
    using ne by (simp add: get_current_key_def py_index_def)
qed

theorem get_current_key_reachable_witness:
  "get_current_key (rotations 1 (fst (init two_keys))) = Inr (S ''k2'') \<and>
   get_current_key (rotations 1 (fst (init no_keys)))
     = Inl (Exn ValueError (S ''No API keys configured!''))"
proof -
  have i: "current_index (rotations 1 (fst (init two_keys))) = 1"
    using rotations_index [of "fst (init two_keys)" 1] two_keys_loaded by simp
  show ?thesis
    using get_current_key_reachable [of "rotations 1 (fst (init two_keys))" 1 two_keys]
      get_current_key_reachable [of "rotations 1 (fst (init no_keys))" 1 no_keys]
      two_keys_loaded no_keys_loaded i
    by simp
qed

text \<open>
  What \<open>__init__\<close> does with the sources, in general: the keys of the first source that
  gives any, and never the placeholder out of the secrets.
\<close>

lemma init_keys:
  "api_keys (fst (init src)) =
     fst (load_single_key (environ src)
            (load_from_environ (environ src) (load_from_secrets (streamlit_module src))))"
  by (simp add: init_def split: prod.splits)

lemma secrets_first:
  "fst (load_from_secrets (streamlit_module src)) \<noteq> [] \<Longrightarrow>
   api_keys (fst (init src)) = fst (load_from_secrets (streamlit_module src))"
  by (cases "load_from_secrets (streamlit_module src)")
     (simp add: init_keys load_from_environ_def load_single_key_def)

lemma secrets_loop_no_placeholder:
  "placeholder \<notin> set keys \<Longrightarrow>
   placeholder \<notin> set (fst (fst (secrets_loop getitem numbers (keys, lg))))"
  by (induction numbers arbitrary: keys lg) (auto split: sum.splits)

lemma secrets_loop_result:
  "secrets_loop getitem numbers ([], lg) = ((keys, lg'), e) \<Longrightarrow> placeholder \<notin> set keys"
  using secrets_loop_no_placeholder [of "[]" getitem numbers lg] by simp

lemma secrets_no_placeholder: "placeholder \<notin> set (fst (load_from_secrets st))"
  by (auto simp: load_from_secrets_def
      split: streamlit.splits sum.splits prod.splits option.splits if_splits
      dest: secrets_loop_result)

text \<open>
  C7 fails on the environment. The placeholder as the value of \<open>GROQ_API_KEY_1\<close> in the
  environment is loaded as a key, and so it is as the value of \<open>GROQ_API_KEY\<close>; the same
  value in the secrets is left out.
\<close>

theorem placeholder_loaded_from_environ:
  "api_keys (fst (init template_environ)) = [placeholder] \<and>
   api_keys (fst (init \<lparr>streamlit_module = NoSecretsAttr,
                         environ = (\<lambda>k. if k = S ''GROQ_API_KEY'' then Some placeholder else None)\<rparr>))
     = [placeholder] \<and>
   api_keys (fst (init template_secrets)) = []"
  by (simp add: template_environ_def template_secrets_def init_eval)

section \<open>Properties of the text extraction\<close>

text \<open>The loop over the pages gives the text of all pages, or the exception of a page.\<close>

lemma read_pages_all:
  "list_all page_read pages \<Longrightarrow> read_pages pages acc = Inr (acc @ concat (map page_text pages))"
  by (induction pages arbitrary: acc)
     (auto simp: page_read_def page_text_def split: sum.splits option.splits)

lemma read_pages_raises:
  "\<not> list_all page_read pages \<Longrightarrow> \<exists>e. read_pages pages acc = Inl e"
  by (induction pages arbitrary: acc)
     (auto simp: page_read_def split: sum.splits option.splits)

lemma pdf_attempt_whole: "except_pass (pdf_attempt reader) = whole_document reader"
proof (cases reader)
  case (Inl e)
  then show ?thesis by (simp add: pdf_attempt_def except_pass_def whole_document_def)
next
  case (Inr pages)
  show ?thesis
  proof (cases "list_all page_read pages")
    case True
    from read_pages_all [OF this, of "[]"] Inr True show ?thesis
      by (simp add: pdf_attempt_def except_pass_def whole_document_def)
  next
    case False
    from read_pages_raises [OF this, of "[]"] obtain e where "read_pages pages [] = Inl e" ..
    with Inr False show ?thesis
      by (simp add: pdf_attempt_def except_pass_def whole_document_def)
  qed
qed

lemma whole_document_nonblank: "whole_document reader = Some t \<Longrightarrow> strip t \<noteq> []"
  by (auto simp: whole_document_def split: sum.splits if_splits)

lemmas extract_eval =
  extract_text_from_file_def extract_body_def extract_pdf_def extract_docx_def extract_txt_def
  pdf_attempt_def except_pass_def endswith_def strip_def is_space_def S_def

text \<open>
  C2, as the specification states it, fails: a PDF of two pages, the first with text,
  the second raising in both libraries, is not extracted.
\<close>

theorem pdf_page_failure_fails:
  "extract_text_from_file two_page_pdf = Inr ([], False, Some (S ''Could not extract text from PDF''))"
  by (simp add: two_page_pdf_def extract_text_from_file_def extract_body_def extract_pdf_def
      pdf_attempt_def except_pass_def)

text \<open>
  C2, as the code has it. A page that raises ends the attempt of its library and the text
  read so far in that attempt is dropped. A PDF is extracted when PyPDF2 reads the document
  as a whole, and otherwise when pdfplumber does, with the text of that library; when
  neither does, the result is the failure "Could not extract text from PDF".
\<close>

theorem pdf_strategy_fallback:
  assumes "file_type f = Inr (S ''application/pdf'')"
  shows "extract_text_from_file f =
           (case whole_document (pypdf2_pages f) of
              Some t \<Rightarrow> Inr (t, True, None)
            | None \<Rightarrow>
                (case whole_document (pdfplumber_pages f) of
                   Some t \<Rightarrow> Inr (t, True, None)
                 | None \<Rightarrow> Inr ([], False, Some (S ''Could not extract text from PDF''))))"
  using assms
  by (simp add: extract_text_from_file_def extract_body_def extract_pdf_def pdf_attempt_whole
      split: option.splits)

theorem pdf_strategy_fallback_witness:
  "file_type recovered_pdf = Inr (S ''application/pdf'') \<and>
   extract_text_from_file recovered_pdf = Inr (S ''Jane Doe'', True, None)"
  using pdf_strategy_fallback [of recovered_pdf]
  by (simp add: recovered_pdf_def two_page_pdf_def whole_document_def page_read_def page_text_def
      strip_def is_space_def S_def)

lemma extract_pdf_success: "extract_pdf f = Inr (t, True, e) \<Longrightarrow> strip t \<noteq> []"
  by (auto simp: extract_pdf_def pdf_attempt_whole split: option.splits
      dest: whole_document_nonblank)

lemma extract_docx_success: "extract_docx f = Inr (t, True, e) \<Longrightarrow> strip t \<noteq> []"
  by (auto simp: extract_docx_def Let_def split: sum.splits if_splits)

lemma extract_txt_success: "extract_txt f = Inr (t, True, e) \<Longrightarrow> strip t \<noteq> []"
  by (auto simp: extract_txt_def split: sum.splits if_splits)

lemma extract_body_success: "extract_body f = Inr (t, True, e) \<Longrightarrow> strip t \<noteq> []"
  by (auto simp: extract_body_def split: sum.splits if_splits
      dest: extract_pdf_success extract_docx_success extract_txt_success)

text \<open>
  C8. Whenever \<open>extract_text_from_file\<close> returns with the success flag set, the text it
  returns is not empty after \<open>strip\<close>.
\<close>

theorem success_text_nonblank:
  "extract_text_from_file f = Inr (text, True, error) \<Longrightarrow> strip text \<noteq> []"
  by (auto simp: extract_text_from_file_def split: sum.splits dest: extract_body_success)

theorem success_text_nonblank_witness:
  "extract_text_from_file text_file = Inr (S '' Jane Doe '', True, None) \<and>
   strip (S '' Jane Doe '') \<noteq> []"
proof -
  have e: "extract_text_from_file text_file = Inr (S '' Jane Doe '', True, None)"
    by (simp add: text_file_def extract_eval)
  from success_text_nonblank [OF e] e show ?thesis by simp
qed

lemma extract_pdf_returns: "\<exists>r. extract_pdf f = Inr r"
  by (auto simp: extract_pdf_def split: option.splits)

lemma extract_docx_returns: "\<exists>r. extract_docx f = Inr r"
  by (auto simp: extract_docx_def Let_def split: sum.splits)

lemma extract_txt_returns: "\<exists>r. extract_txt f = Inr r"
  by (auto simp: extract_txt_def split: sum.splits)

text \<open>
  The statements under the outermost \<open>try\<close> raise only where the attributes are read:
  the type, or the name when the type is neither that of a PDF nor one of a word
  processor.
\<close>

lemma extract_body_raises:
  "extract_body f = Inl e \<longleftrightarrow>
     file_type f = Inl e \<or>
     (\<exists>ty. file_type f = Inr ty \<and> ty \<noteq> S ''application/pdf'' \<and>
           \<not> contains ty (S ''wordprocessingml'') \<and> file_name f = Inl e)"
  using extract_pdf_returns [of f] extract_docx_returns [of f] extract_txt_returns [of f]
  by (auto simp: extract_body_def split: sum.splits)

text \<open>
  C10. \<open>extract_text_from_file\<close> returns a triple on every input and raises on none; an
  exception that leaves the statements under the outermost \<open>try\<close> becomes the failure
  triple whose reason is "Unexpected error: " followed by the text of the exception. Such
  are the exceptions of reading the type, and of reading the name where the branch is
  chosen by it.
\<close>

theorem extract_total:
  "(\<exists>text success error. extract_text_from_file f = Inr (text, success, error)) \<and>
   (\<forall>e. extract_body f = Inl e \<longrightarrow>
      extract_text_from_file f = Inr ([], False, Some (S ''Unexpected error: '' @ exn_str e))) \<and>
   (\<forall>e. file_type f = Inl e \<longrightarrow>
      extract_text_from_file f = Inr ([], False, Some (S ''Unexpected error: '' @ exn_str e))) \<and>
   (\<forall>e ty. file_type f = Inr ty \<and> ty \<noteq> S ''application/pdf'' \<and>
      \<not> contains ty (S ''wordprocessingml'') \<and> file_name f = Inl e \<longrightarrow>
      extract_text_from_file f = Inr ([], False, Some (S ''Unexpected error: '' @ exn_str e)))"
proof -
  have body: "extract_body f = Inl e \<Longrightarrow>
      extract_text_from_file f = Inr ([], False, Some (S ''Unexpected error: '' @ exn_str e))" for e
    by (simp add: extract_text_from_file_def)
  have "\<exists>text success error. extract_text_from_file f = Inr (text, success, error)"
    by (cases "extract_body f") (auto simp: extract_text_from_file_def)
  with body show ?thesis by (auto simp: extract_body_raises)
qed

theorem extract_total_witness:
  "file_type no_type = Inl (Exn OtherError (S ''no attribute type'')) \<and>
   extract_body no_type = Inl (Exn OtherError (S ''no attribute type'')) \<and>
   extract_text_from_file no_type
     = Inr ([], False, Some (S ''Unexpected error: '' @ S ''no attribute type''))"
proof -
  have t: "file_type no_type = Inl (Exn OtherError (S ''no attribute type''))"
    by (simp add: no_type_def text_file_def)
  then have b: "extract_body no_type = Inl (Exn OtherError (S ''no attribute type''))"
    by (simp add: extract_body_def)
  from extract_total [of no_type] t b show ?thesis by simp
qed

section \<open>Properties of the batch loop\<close>

lemma extract_returns: "\<exists>r. extract_text_from_file f = Inr r"
  by (cases "extract_body f") (auto simp: extract_text_from_file_def)

text \<open>One pass of the loop, by what becomes of the document.\<close>

lemma dash_analysis: "S '' - Analysis error: '' = S '' - '' @ S ''Analysis error: ''"
  by (simp add: S_def)

lemma loop_body_failure:
  "failure_line env sb (idx, f) = Some line \<Longrightarrow> loop_body env sb idx f st = Inr (record_failure line st)"
  by (auto simp: failure_line_def failure_reason_def loop_body_def dash_analysis
      split: sum.splits option.splits if_splits prod.splits)

lemma loop_body_candidate:
  "new_candidate env sb (idx, f) = Some c \<Longrightarrow>
   \<exists>ca. loop_body env sb idx f st =
     Inr (st\<lparr>all_results := all_results st @ [c], current_analysis := ca,
             successful := successful st + 1\<rparr>)"
  by (auto simp: new_candidate_def loop_body_def
      split: sum.splits option.splits if_splits prod.splits)

text \<open>A well-formed document either fails or gives a record, never both.\<close>

lemma exactly_one:
  "well_formed_item env sb (idx, f) \<Longrightarrow>
   (failure_line env sb (idx, f) = None) \<noteq> (new_candidate env sb (idx, f) = None)"
  using extract_returns [of f]
  by (auto simp: well_formed_item_def readable_name_def complete_result_def failure_line_def
      failure_reason_def new_candidate_def
      split: sum.splits option.splits if_splits prod.splits)

text \<open>
  A pass of the loop raises exactly on a document that is not well formed, and so does
  the loop.
\<close>

lemma loop_body_returns:
  "(\<exists>st'. loop_body env sb idx f st = Inr st') \<longleftrightarrow> well_formed_item env sb (idx, f)"
  using extract_returns [of f]
  by (auto simp: well_formed_item_def readable_name_def complete_result_def loop_body_def
      split: sum.splits option.splits if_splits prod.splits)


lemma batch_loop_returns:
  "(\<exists>st'. batch_loop env sb idx fs st = Inr st') \<longleftrightarrow>
   list_all (well_formed_item env sb) (enumerate idx fs)"
proof (induction fs arbitrary: idx st)
  case Nil
  then show ?case by simp
next
  case (Cons f fs)
  show ?case
  proof (cases "loop_body env sb idx f st")
    case (Inl e)
    with loop_body_returns [of env sb idx f st] show ?thesis by simp
  next
    case (Inr st1)
    with loop_body_returns [of env sb idx f st] have "well_formed_item env sb (idx, f)" by auto
    with Inr Cons.IH [of "Suc idx" st1] show ?thesis by simp
  qed
qed

text \<open>
  The state after the loop: the failure list and the results have grown by the entries of
  the documents, in the order of the documents, and the counters by their numbers.
\<close>

lemma batch_loop_state:
  "batch_loop env sb idx fs st = Inr st' \<Longrightarrow>
   failed_files st' = failed_files st @ List.map_filter (failure_line env sb) (enumerate idx fs) \<and>
   failed st' = failed st + length (List.map_filter (failure_line env sb) (enumerate idx fs)) \<and>
   all_results st' = all_results st @ List.map_filter (new_candidate env sb) (enumerate idx fs) \<and>
   successful st' = successful st + length (List.map_filter (new_candidate env sb) (enumerate idx fs))"
proof (induction fs arbitrary: idx st)
  case Nil
  then show ?case by simp
next
  case (Cons f fs)
  from Cons.prems obtain st1 where
    body: "loop_body env sb idx f st = Inr st1" and rest: "batch_loop env sb (Suc idx) fs st1 = Inr st'"
    by (auto split: sum.splits)
  from body loop_body_returns [of env sb idx f st] have wf: "well_formed_item env sb (idx, f)"
    by auto
  note IH = Cons.IH [OF rest]
  show ?case
  proof (cases "failure_line env sb (idx, f)")
    case (Some line)
    with exactly_one [OF wf] have nc: "new_candidate env sb (idx, f) = None" by auto
    from loop_body_failure [OF Some, of st] body have "st1 = record_failure line st" by simp
    with IH Some nc show ?thesis by (simp add: record_failure_def)
  next
    case None
    with exactly_one [OF wf] obtain c where c: "new_candidate env sb (idx, f) = Some c" by auto
    from loop_body_candidate [OF c, of st] body obtain ca where
      "st1 = st\<lparr>all_results := all_results st @ [c], current_analysis := ca,
                successful := successful st + 1\<rparr>" by auto
    with IH None c show ?thesis by simp
  qed
qed

lemma outcomes_partition:
  "list_all (well_formed_item env sb) xs \<Longrightarrow>
   length (List.map_filter (new_candidate env sb) xs) + length (List.map_filter (failure_line env sb) xs)
     = length xs"
proof (induction xs)
  case Nil
  then show ?case by simp
next
  case (Cons x xs)
  obtain idx f where x: "x = (idx, f)" by (cases x)
  with Cons.prems have "well_formed_item env sb (idx, f)" by simp
  from exactly_one [OF this] Cons x show ?case
    by (auto split: option.splits)
qed

text \<open>
  C1. When the batch loop has finished, the successful count plus the failed count is the
  number of documents; the successful count is the number of documents that gave a record,
  the failed count the number of documents that gave an entry of the failure list, and
  every document did exactly one of the two. The loop does finish on every list of
  well-formed documents.
\<close>

theorem batch_counts:
  "(\<forall>st. analyze_all env sb files session = Inr st \<longrightarrow>
      successful st + failed st = length files \<and>
      successful st = length (List.map_filter (new_candidate env sb) (enumerate 0 files)) \<and>
      failed st = length (List.map_filter (failure_line env sb) (enumerate 0 files)) \<and>
      (\<forall>x \<in> set (enumerate 0 files).
         (new_candidate env sb x = None) \<noteq> (failure_line env sb x = None))) \<and>
   (list_all (well_formed_item env sb) (enumerate 0 files) \<longrightarrow>
      (\<exists>st. analyze_all env sb files session = Inr st))"
proof (intro conjI allI impI)
  fix st assume run: "analyze_all env sb files session = Inr st"
  let ?st0 = "session\<lparr>successful := 0, failed := 0, failed_files := []\<rparr>"
  from run have loop: "batch_loop env sb 0 files ?st0 = Inr st" by (simp add: analyze_all_def)
  with batch_loop_returns [of env sb 0 files ?st0]
  have wf: "list_all (well_formed_item env sb) (enumerate 0 files)" by auto
  from batch_loop_state [OF loop]
  show s: "successful st = length (List.map_filter (new_candidate env sb) (enumerate 0 files))"
    and f: "failed st = length (List.map_filter (failure_line env sb) (enumerate 0 files))"
    by simp_all
  from outcomes_partition [OF wf] s f show "successful st + failed st = length files" by simp
  show "\<forall>x \<in> set (enumerate 0 files).
         (new_candidate env sb x = None) \<noteq> (failure_line env sb x = None)"
  proof
    fix x assume "x \<in> set (enumerate 0 files)"
    with wf have "well_formed_item env sb x" by (simp add: list_all_iff)
    then show "(new_candidate env sb x = None) \<noteq> (failure_line env sb x = None)"
      using exactly_one [of env sb "fst x" "snd x"] by auto
  qed
next
  assume "list_all (well_formed_item env sb) (enumerate 0 files)"
  with batch_loop_returns [of env sb 0 files "session\<lparr>successful := 0, failed := 0, failed_files := []\<rparr>"]
  show "\<exists>st. analyze_all env sb files session = Inr st" by (simp add: analyze_all_def)
qed

text \<open>
  C6. For a document that is extracted and whose analysis succeeds with the score \<open>s\<close>,
  the pass of the loop appends a record that stores the score \<open>s\<close> and whose flag
  \<open>shortlisted\<close> is \<open>s \<ge> t\<close>, for the threshold \<open>t\<close> of the sidebar; this for all
  integers \<open>s\<close> and \<open>t\<close>, those of 0 to 100 among them.
\<close>

theorem shortlisted_by_threshold:
  assumes "file_name f = Inr n"
    and "extract_text_from_file f = Inr (text, True, err)"
    and "run_complete_analysis env idx text (make_job_requirements sb) = Inr (Some r)"
    and "r_status r = Some (S ''success'')"
    and "r_parsed_resume r = Some p"
    and "r_analysis r = Some a"
    and "a_confidence_score a = Some s"
  shows "\<exists>c. loop_body env sb idx f st =
               Inr (st\<lparr>all_results := all_results st @ [c],
                       current_analysis := Some (p, a, n),
                       successful := successful st + 1\<rparr>) \<and>
             resume_file c = n \<and> confidence_score c = s \<and>
             shortlisted c = (s \<ge> shortlist_threshold sb)"
proof -
  let ?c = "make_candidate sb (now env idx) n p a"
  have "loop_body env sb idx f st =
          Inr (st\<lparr>all_results := all_results st @ [?c],
                  current_analysis := Some (p, a, n),
                  successful := successful st + 1\<rparr>)"
    using assms by (simp add: loop_body_def success_result_def truthy_def)
  moreover have "resume_file ?c = n \<and> confidence_score ?c = s \<and>
                 shortlisted ?c = (s \<ge> shortlist_threshold sb)"
    using assms by (simp add: make_candidate_def get_default_def)
  ultimately show ?thesis by blast
qed


text \<open>The example of three documents.\<close>

lemmas batch_eval =
  well_formed_item_def readable_name_def complete_result_def failure_line_def failure_reason_def
  new_candidate_def success_result_def truthy_def error_msg_def str_opt_def
  doc1_def doc2_def doc3_def text_file_def always_success_def good_result_def
  extract_eval

lemma three_documents_well_formed:
  "list_all (well_formed_item always_success threshold_70) (enumerate 0 [doc1, doc2, doc3])"
  by (simp add: batch_eval)

theorem batch_counts_witness:
  "list_all (well_formed_item always_success threshold_70) (enumerate 0 [doc1, doc2, doc3]) \<and>
   map_sum id (\<lambda>st. (successful st, failed st, successful st + failed st))
     (analyze_all always_success threshold_70 [doc1, doc2, doc3] fresh_session) = Inr (2, 1, 3)"
proof -
  note wf = three_documents_well_formed
  note bc = batch_counts [of always_success threshold_70 "[doc1, doc2, doc3]" fresh_session]
  from bc wf obtain st where
    run: "analyze_all always_success threshold_70 [doc1, doc2, doc3] fresh_session = Inr st"
    by blast
  with bc have total: "successful st + failed st = length [doc1, doc2, doc3]"
    and f: "failed st = length (List.map_filter (failure_line always_success threshold_70)
                                  (enumerate 0 [doc1, doc2, doc3]))"
    by blast+
  from f have "failed st = 1" by (simp add: batch_eval)
  with total run wf show ?thesis by simp
qed

theorem shortlisted_by_threshold_witness:
  "file_name doc1 = Inr (S ''doc1.txt'') \<and>
   extract_text_from_file doc1 = Inr (S '' Jane Doe '', True, None) \<and>
   run_complete_analysis always_success 0 (S '' Jane Doe '') (make_job_requirements threshold_70)
     = Inr (Some good_result) \<and>
   r_status good_result = Some (S ''success'') \<and>
   r_parsed_resume good_result = Some jane \<and>
   r_analysis good_result = Some score_80 \<and>
   a_confidence_score score_80 = Some 80 \<and>
   map_sum id (\<lambda>st. map (\<lambda>c. (confidence_score c, shortlisted c)) (all_results st))
     (loop_body always_success threshold_70 0 doc1 fresh_session) = Inr [(80, True)]"
proof -
  have 1: "file_name doc1 = Inr (S ''doc1.txt'')" by (simp add: doc1_def text_file_def)
  have 2: "extract_text_from_file doc1 = Inr (S '' Jane Doe '', True, None)"
    by (simp add: doc1_def text_file_def extract_eval)
  have 3: "run_complete_analysis always_success 0 (S '' Jane Doe '') (make_job_requirements threshold_70)
     = Inr (Some good_result)" by (simp add: always_success_def)
  have 4: "r_status good_result = Some (S ''success'')" by (simp add: good_result_def)
  have 5: "r_parsed_resume good_result = Some jane" by (simp add: good_result_def)
  have 6: "r_analysis good_result = Some score_80" by (simp add: good_result_def)
  have 7: "a_confidence_score score_80 = Some 80" by (simp add: score_80_def)
  from shortlisted_by_threshold [OF 1 2 3 4 5 6 7, of fresh_session]
  obtain c where "loop_body always_success threshold_70 0 doc1 fresh_session =
               Inr (fresh_session\<lparr>all_results := all_results fresh_session @ [c],
                       current_analysis := Some (jane, score_80, S ''doc1.txt''),
                       successful := successful fresh_session + 1\<rparr>)"
    and "confidence_score c = 80" and "shortlisted c = (80 \<ge> shortlist_threshold threshold_70)"
    by blast
  with 1 2 3 4 5 6 7 show ?thesis by (simp add: fresh_session_def threshold_70_def)
qed





lemma success_result_empty [simp]: "success_result None = None"
  by (simp add: success_result_def)




text \<open>
  A document that fails asks nothing of the condition beyond its name.
\<close>

lemma failing_item_honours_contract:
  "file_name f = Inr n \<Longrightarrow> item_reason env sb (idx, f) = Some reason \<Longrightarrow>
   honours_contract env sb (idx, f)"
  by (auto simp: honours_contract_def item_reason_def declined_def complete_success_def
      split: sum.splits option.splits prod.splits if_splits)





end
